theory Spec2Isabelle
  imports
    Main
    "HOL-Library.List_Lexorder"
    "HOL-Library.Option_ord"
    "HOL-Library.Product_Lexorder"
    "HOL-Library.Sublist"
begin

section \<open>The county\_data API (api/index.py)\<close>

subsection \<open>Python strings and JSON values\<close>

text \<open>
  A Python \<open>str\<close> is a sequence of Unicode code points, so it is modelled as a list of
  code points; \<open>py\<close> turns an ASCII literal of the source into that list.
\<close>

type_synonym pystr = "nat list"

definition py :: "string \<Rightarrow> pystr" where
  "py s = map of_char s"

text \<open>
  The value \<open>request.get_json(silent=True)\<close> hands to the view: any JSON value, where
  \<open>JNull\<close> is Python's \<open>None\<close> (a body that is \<open>null\<close>, or one that does not parse).
  A float is never inspected by the code beyond its type; it is kept as mantissa and
  exponent. A dict is the list of its items, read with \<open>map_of\<close>; the keys of a dict are
  distinct (on a list that repeats a key, \<open>map_of\<close> reads the first binding).
\<close>

datatype json =
    JNull
  | JBool bool
  | JInt int
  | JFloat int int
  | JStr pystr
  | JArr "json list"
  | JObj "(pystr \<times> json) list"

text \<open>\<open>payload.get(key)\<close>: the value bound to the key, \<open>None\<close> when the key is absent.\<close>

definition dict_get :: "(pystr \<times> json) list \<Rightarrow> pystr \<Rightarrow> json" where
  "dict_get d k = (case map_of d k of None \<Rightarrow> JNull | Some v \<Rightarrow> v)"

subsection \<open>Exceptions and responses\<close>

datatype http_exception = BadRequest pystr | NotFound pystr

text \<open>
  Everything the view can raise: the two werkzeug exceptions of the source, the
  \<open>AttributeError\<close> of calling \<open>.get\<close> on a payload that is no dict, and an
  \<open>sqlite3.Error\<close>; the last two carry the text \<open>str(error)\<close> gives.
\<close>

datatype py_exception =
    Http http_exception
  | AttributeError pystr
  | SqliteError pystr

fun code :: "http_exception \<Rightarrow> nat" where
  "code (BadRequest d) = 400"
| "code (NotFound d) = 404"

fun description :: "http_exception \<Rightarrow> pystr" where
  "description (BadRequest d) = d"
| "description (NotFound d) = d"

text \<open>\<open>HTTPStatus(code).phrase\<close> for the two codes in use.\<close>

fun phrase :: "http_exception \<Rightarrow> pystr" where
  "phrase (BadRequest d) = py ''Bad Request''"
| "phrase (NotFound d) = py ''Not Found''"

record response =
  status_code :: nat
  body :: json

subsection \<open>Payload validation\<close>

definition ALLOWED_MEASURES :: "pystr set" where
  "ALLOWED_MEASURES = {
     py ''Violent crime rate'',
     py ''Unemployment'',
     py ''Children in poverty'',
     py ''Diabetic screening'',
     py ''Mammography screening'',
     py ''Preventable hospital stays'',
     py ''Uninsured'',
     py ''Sexually transmitted infections'',
     py ''Physical inactivity'',
     py ''Adult obesity'',
     py ''Premature Death'',
     py ''Daily fine particulate matter''}"

text \<open>
  \<open>\d\<close> in a \<open>str\<close> pattern matches every Unicode decimal digit (general category Nd),
  not only \<open>0\<close> to \<open>9\<close>. The ranges are those of Unicode 14 (Python 3.11); the first is
  the ASCII digits.
\<close>

definition Nd_ranges :: "(nat \<times> nat) list" where
  "Nd_ranges = [
     (48, 57), (1632, 1641), (1776, 1785), (1984, 1993), (2406, 2415), (2534, 2543),
     (2662, 2671), (2790, 2799), (2918, 2927), (3046, 3055), (3174, 3183), (3302, 3311),
     (3430, 3439), (3558, 3567), (3664, 3673), (3792, 3801), (3872, 3881), (4160, 4169),
     (4240, 4249), (6112, 6121), (6160, 6169), (6470, 6479), (6608, 6617), (6784, 6793),
     (6800, 6809), (6992, 7001), (7088, 7097), (7232, 7241), (7248, 7257), (42528, 42537),
     (43216, 43225), (43264, 43273), (43472, 43481), (43504, 43513), (43600, 43609),
     (44016, 44025), (65296, 65305), (66720, 66729), (68912, 68921), (69734, 69743),
     (69872, 69881), (69942, 69951), (70096, 70105), (70384, 70393), (70736, 70745),
     (70864, 70873), (71248, 71257), (71360, 71369), (71472, 71481), (71904, 71913),
     (72016, 72025), (72784, 72793), (73040, 73049), (73120, 73129), (92768, 92777),
     (92864, 92873), (93008, 93017), (120782, 120831), (123200, 123209), (123632, 123641),
     (125264, 125273), (130032, 130041)]"

definition re_digit :: "nat \<Rightarrow> bool" where
  "re_digit c = list_ex (\<lambda>(lo, hi). lo \<le> c \<and> c \<le> hi) Nd_ranges"

text \<open>
  \<open>$\<close> without \<open>re.MULTILINE\<close> matches at the end of the string and also just before a
  newline that is the last character; the argument is what is left of the string.
\<close>

definition re_end :: "pystr \<Rightarrow> bool" where
  "re_end s = (s = [] \<or> s = [10])"

text \<open>\<open>ZIP_PATTERN.match(s)\<close> for \<open>ZIP_PATTERN = re.compile(r"^\d{5}$")\<close>.\<close>

definition ZIP_PATTERN_match :: "pystr \<Rightarrow> bool" where
  "ZIP_PATTERN_match s =
     (5 \<le> length s \<and> list_all re_digit (take 5 s) \<and> re_end (drop 5 s))"

text \<open>
  \<open>validate_payload\<close> returns the dict \<open>{"zip": zip_code, "measure_name": measure_name}\<close>,
  here the pair of the two strings.
\<close>

definition validate_payload :: "(pystr \<times> json) list \<Rightarrow> py_exception + (pystr \<times> pystr)" where
  "validate_payload payload =
     (let zip_code = dict_get payload (py ''zip'');
          measure_name = dict_get payload (py ''measure_name'')
      in if zip_code = JNull \<or> measure_name = JNull then
           Inl (Http (BadRequest (py ''Both 'zip' and 'measure_name' are required'')))
         else
           (case zip_code of
              JStr z \<Rightarrow>
                if \<not> ZIP_PATTERN_match z then
                  Inl (Http (BadRequest (py ''zip must be a 5-digit string'')))
                else
                  (case measure_name of
                     JStr m \<Rightarrow>
                       if m \<notin> ALLOWED_MEASURES then
                         Inl (Http (BadRequest
                           (py ''measure_name must be one of the documented measures'')))
                       else Inr (z, m)
                   | _ \<Rightarrow> Inl (Http (BadRequest (py ''measure_name must be a string''))))
            | _ \<Rightarrow> Inl (Http (BadRequest (py ''zip must be a 5-digit string'')))))"

subsection \<open>The store\<close>

text \<open>
  csv\_to\_sqlite.py creates every table with \<open>TEXT\<close> columns only, so a value of the
  store is \<open>NULL\<close> (\<open>None\<close>) or a text (\<open>Some s\<close>). With the canonical orders on
  options, lists and pairs this is also SQLite's order under the default \<open>BINARY\<close>
  collation: \<open>NULL\<close> first, texts compared code point by code point, a proper prefix
  before the longer text.
\<close>

type_synonym sql_value = "pystr option"

text \<open>
  A row of \<open>county_health_rankings\<close> (alias \<open>chr\<close> in the query), by the 14 columns the
  query selects, and a row of \<open>zip_county\<close> (alias \<open>zc\<close>), by the 4 columns it reads.
\<close>

record chr_row =
  chr_state :: sql_value
  chr_county :: sql_value
  chr_state_code :: sql_value
  chr_county_code :: sql_value
  chr_year_span :: sql_value
  chr_measure_name :: sql_value
  chr_measure_id :: sql_value
  chr_numerator :: sql_value
  chr_denominator :: sql_value
  chr_raw_value :: sql_value
  chr_confidence_interval_lower_bound :: sql_value
  chr_confidence_interval_upper_bound :: sql_value
  chr_data_release_year :: sql_value
  chr_fipscode :: sql_value

record zc_row =
  zc_zip :: sql_value
  zc_county :: sql_value
  zc_state_abbreviation :: sql_value
  zc_county_code :: sql_value

record database =
  county_health_rankings :: "chr_row list"
  zip_county :: "zc_row list"

text \<open>
  What is at \<open>DB_PATH\<close>: nothing, a file on which sqlite3 raises an error with the given
  text while connecting or running the query, or a database with the two tables.
\<close>

datatype store_file = Absent | Unreadable pystr | Tables database

record store =
  DB_PATH :: pystr
  contents :: store_file

subsection \<open>SQL conditions\<close>

text \<open>A condition evaluates to true, false or \<open>NULL\<close> (\<open>None\<close>).\<close>

type_synonym sql_bool = "bool option"

definition sql_eq :: "sql_value \<Rightarrow> sql_value \<Rightarrow> sql_bool" where
  "sql_eq a b = (case (a, b) of (Some x, Some y) \<Rightarrow> Some (x = y) | _ \<Rightarrow> None)"

definition sql_is_not_null :: "sql_value \<Rightarrow> sql_bool" where
  "sql_is_not_null a = Some (a \<noteq> None)"

definition sql_and :: "sql_bool \<Rightarrow> sql_bool \<Rightarrow> sql_bool" where
  "sql_and p q =
     (if p = Some False \<or> q = Some False then Some False
      else if p = None \<or> q = None then None
      else Some True)"

definition sql_or :: "sql_bool \<Rightarrow> sql_bool \<Rightarrow> sql_bool" where
  "sql_or p q =
     (if p = Some True \<or> q = Some True then Some True
      else if p = None \<or> q = None then None
      else Some False)"

text \<open>The \<open>ON\<close> condition of the join and the \<open>WHERE\<close> condition, as the query writes them.\<close>

definition join_on :: "pystr \<Rightarrow> chr_row \<Rightarrow> zc_row \<Rightarrow> sql_bool" where
  "join_on zip_code r zc =
     sql_and (sql_eq (zc_zip zc) (Some zip_code))
       (sql_or
          (sql_and (sql_is_not_null (chr_fipscode r))
                   (sql_eq (chr_fipscode r) (zc_county_code zc)))
          (sql_and (sql_eq (chr_county r) (zc_county zc))
                   (sql_eq (chr_state r) (zc_state_abbreviation zc))))"

definition where_measure :: "pystr \<Rightarrow> chr_row \<Rightarrow> sql_bool" where
  "where_measure measure_name r = sql_eq (chr_measure_name r) (Some measure_name)"

text \<open>
  The query of \<open>lookup_county_data\<close>: the joined pairs on which both conditions are
  true, projected to the \<open>chr\<close> columns, \<open>DISTINCT\<close>, then \<open>ORDER BY\<close> the two keys.
  SQLite leaves the order of rows with equal keys open; the stable sort fixes one.
\<close>

definition query :: "database \<Rightarrow> pystr \<Rightarrow> pystr \<Rightarrow> chr_row list" where
  "query db zip_code measure_name =
     sort_key (\<lambda>r. (chr_data_release_year r, chr_year_span r))
       (remdups
          (concat (map (\<lambda>r.
             map (\<lambda>zc. r)
               (filter (\<lambda>zc. join_on zip_code r zc = Some True
                            \<and> where_measure measure_name r = Some True)
                  (zip_county db)))
             (county_health_rankings db))))"

definition get_connection :: "store \<Rightarrow> py_exception + database" where
  "get_connection st =
     (case contents st of
        Absent \<Rightarrow> Inl (Http (NotFound (py ''Database not found at '' @ DB_PATH st)))
      | Unreadable msg \<Rightarrow> Inl (SqliteError msg)
      | Tables db \<Rightarrow> Inr db)"

definition lookup_county_data :: "store \<Rightarrow> pystr \<Rightarrow> pystr \<Rightarrow> py_exception + chr_row list" where
  "lookup_county_data st zip_code measure_name =
     (case get_connection st of
        Inl e \<Rightarrow> Inl e
      | Inr connection \<Rightarrow> Inr (query connection zip_code measure_name))"

subsection \<open>Error handlers and the view\<close>

definition error_body :: "pystr \<Rightarrow> json" where
  "error_body msg = JObj [(py ''error'', JStr msg)]"

text \<open>
  \<open>handle_http_exception\<close>: \<open>error.code\<close> is set on both exceptions and neither has a
  response attached, so the first \<open>return\<close> is the one taken.
\<close>

definition handle_http_exception :: "http_exception \<Rightarrow> response" where
  "handle_http_exception error =
     \<lparr>status_code = code error,
      body = error_body (if description error \<noteq> [] then description error else phrase error)\<rparr>"

text \<open>\<open>handle_unexpected_exception\<close>, on the text \<open>str(error)\<close>.\<close>

definition handle_unexpected_exception :: "pystr \<Rightarrow> response" where
  "handle_unexpected_exception str_error =
     \<lparr>status_code = 500,
      body = error_body (if str_error \<noteq> [] then str_error else py ''Internal server error'')\<rparr>"

text \<open>Flask picks the handler by the class of the exception.\<close>

fun handle_exception :: "py_exception \<Rightarrow> response" where
  "handle_exception (Http e) = handle_http_exception e"
| "handle_exception (AttributeError msg) = handle_unexpected_exception msg"
| "handle_exception (SqliteError msg) = handle_unexpected_exception msg"

definition sql_json :: "sql_value \<Rightarrow> json" where
  "sql_json v = (case v of None \<Rightarrow> JNull | Some s \<Rightarrow> JStr s)"

text \<open>\<open>dict(row)\<close>: the 14 selected columns under the names of the query.\<close>

definition dict_row :: "chr_row \<Rightarrow> json" where
  "dict_row r = JObj [
     (py ''state'', sql_json (chr_state r)),
     (py ''county'', sql_json (chr_county r)),
     (py ''state_code'', sql_json (chr_state_code r)),
     (py ''county_code'', sql_json (chr_county_code r)),
     (py ''year_span'', sql_json (chr_year_span r)),
     (py ''measure_name'', sql_json (chr_measure_name r)),
     (py ''measure_id'', sql_json (chr_measure_id r)),
     (py ''numerator'', sql_json (chr_numerator r)),
     (py ''denominator'', sql_json (chr_denominator r)),
     (py ''raw_value'', sql_json (chr_raw_value r)),
     (py ''confidence_interval_lower_bound'', sql_json (chr_confidence_interval_lower_bound r)),
     (py ''confidence_interval_upper_bound'', sql_json (chr_confidence_interval_upper_bound r)),
     (py ''data_release_year'', sql_json (chr_data_release_year r)),
     (py ''fipscode'', sql_json (chr_fipscode r))]"

definition jsonify_records :: "chr_row list \<Rightarrow> json" where
  "jsonify_records records = JArr (map dict_row records)"

text \<open>The name of the Python type of a payload that is no dict, for the text of the
  \<open>AttributeError\<close> that \<open>payload.get\<close> raises on it.\<close>

fun type_name :: "json \<Rightarrow> pystr" where
  "type_name (JBool b) = py ''bool''"
| "type_name (JInt i) = py ''int''"
| "type_name (JFloat m e) = py ''float''"
| "type_name (JStr s) = py ''str''"
| "type_name (JArr xs) = py ''list''"
| "type_name (JObj d) = py ''dict''"
| "type_name JNull = py ''NoneType''"

definition no_attribute_get :: "json \<Rightarrow> pystr" where
  "no_attribute_get v = [39] @ type_name v @ py '' object has no attribute 'get'' @ [39]"

text \<open>The body of the view \<open>county_data\<close>, on the parsed payload, up to what it raises.\<close>

definition county_data_view :: "store \<Rightarrow> json \<Rightarrow> py_exception + response" where
  "county_data_view st payload =
     (case payload of
        JNull \<Rightarrow> Inl (Http (BadRequest (py ''Request body must be JSON'')))
      | JObj d \<Rightarrow>
          if dict_get d (py ''coffee'') = JStr (py ''teapot'') then
            Inr \<lparr>status_code = 418, body = error_body (py ''Request rejected: I'm a teapot.'')\<rparr>
          else
            (case validate_payload d of
               Inl e \<Rightarrow> Inl e
             | Inr (zip_code, measure_name) \<Rightarrow>
                 (case lookup_county_data st zip_code measure_name of
                    Inl e \<Rightarrow> Inl e
                  | Inr records \<Rightarrow>
                      if records = [] then
                        Inl (Http (NotFound (py ''No matching records found'')))
                      else Inr \<lparr>status_code = 200, body = jsonify_records records\<rparr>))
      | _ \<Rightarrow> Inl (AttributeError (no_attribute_get payload)))"

text \<open>The route: the view, with what it raises turned into a response by the handlers.\<close>

definition county_data :: "store \<Rightarrow> json \<Rightarrow> response" where
  "county_data st payload =
     (case county_data_view st payload of
        Inl e \<Rightarrow> handle_exception e
      | Inr r \<Rightarrow> r)"

subsection \<open>A sample store\<close>

text \<open>
  A small store for the concrete instances below: three records of Middlesex County and
  one of Suffolk County, in no particular order, and two zip codes. The Middlesex records
  match the mapping of 02138 both by code and by name.
\<close>

definition sample_row :: "pystr \<Rightarrow> pystr \<Rightarrow> pystr \<Rightarrow> pystr \<Rightarrow> pystr \<Rightarrow> chr_row" where
  "sample_row county fips measure_name release span =
     \<lparr>chr_state = Some (py ''MA''),
      chr_county = Some county,
      chr_state_code = Some (take 2 fips),
      chr_county_code = Some (drop 2 fips),
      chr_year_span = Some span,
      chr_measure_name = Some measure_name,
      chr_measure_id = Some (py ''11''),
      chr_numerator = Some [],
      chr_denominator = Some [],
      chr_raw_value = Some (py ''0.23''),
      chr_confidence_interval_lower_bound = Some (py ''0.22''),
      chr_confidence_interval_upper_bound = Some (py ''0.24''),
      chr_data_release_year = Some release,
      chr_fipscode = Some fips\<rparr>"

definition sample_db :: database where
  "sample_db =
     \<lparr>county_health_rankings = [
        sample_row (py ''Middlesex County'') (py ''25017'') (py ''Adult obesity'')
          (py ''2012'') (py ''2008''),
        sample_row (py ''Suffolk County'') (py ''25025'') (py ''Adult obesity'')
          (py ''2011'') (py ''2007''),
        sample_row (py ''Middlesex County'') (py ''25017'') (py ''Unemployment'')
          (py ''2011'') (py ''2009''),
        sample_row (py ''Middlesex County'') (py ''25017'') (py ''Adult obesity'')
          (py ''2010'') (py ''2006'')],
      zip_county = [
        \<lparr>zc_zip = Some (py ''02138''), zc_county = Some (py ''Middlesex County''),
         zc_state_abbreviation = Some (py ''MA''), zc_county_code = Some (py ''25017'')\<rparr>,
        \<lparr>zc_zip = Some (py ''02108''), zc_county = Some (py ''Suffolk County''),
         zc_state_abbreviation = Some (py ''MA''), zc_county_code = Some (py ''25025'')\<rparr>]\<rparr>"

definition sample_store :: store where
  "sample_store = \<lparr>DB_PATH = py ''/var/task/data.db'', contents = Tables sample_db\<rparr>"

section \<open>Properties\<close>

lemmas zip_eval = ZIP_PATTERN_match_def re_digit_def Nd_ranges_def re_end_def py_def

lemmas view_defs = county_data_def county_data_view_def handle_http_exception_def
  handle_unexpected_exception_def error_body_def

lemma py_Nil_iff: "py s = [] \<longleftrightarrow> s = []"
  by (simp add: py_def)

subsection \<open>What the zip pattern matches\<close>

lemma ascii_digit_re_digit: "48 \<le> c \<Longrightarrow> c \<le> 57 \<Longrightarrow> re_digit c"
  by (simp add: re_digit_def Nd_ranges_def)

lemma five_ascii_digits_match:
  assumes "length s = 5" and "\<forall>c \<in> set s. 48 \<le> c \<and> c \<le> 57"
  shows "ZIP_PATTERN_match s"
  using assms by (simp add: ZIP_PATTERN_match_def re_end_def list_all_iff ascii_digit_re_digit)

lemma ZIP_PATTERN_match_iff:
  "ZIP_PATTERN_match s \<longleftrightarrow>
     (\<exists>ds. length ds = 5 \<and> (\<forall>c \<in> set ds. re_digit c) \<and> (s = ds \<or> s = ds @ [10]))"
proof
  assume m: "ZIP_PATTERN_match s"
  then have "length (take 5 s) = 5" "\<forall>c \<in> set (take 5 s). re_digit c"
      "s = take 5 s \<or> s = take 5 s @ [10]"
    by (auto simp: ZIP_PATTERN_match_def re_end_def list_all_iff
        intro: append_take_drop_id[symmetric]) (metis append_take_drop_id)
  then show "\<exists>ds. length ds = 5 \<and> (\<forall>c \<in> set ds. re_digit c) \<and> (s = ds \<or> s = ds @ [10])"
    by blast
next
  assume "\<exists>ds. length ds = 5 \<and> (\<forall>c \<in> set ds. re_digit c) \<and> (s = ds \<or> s = ds @ [10])"
  then show "ZIP_PATTERN_match s"
    by (auto simp: ZIP_PATTERN_match_def re_end_def list_all_iff)
qed

subsection \<open>What validation raises\<close>

lemma validate_payload_raises:
  assumes "validate_payload d = Inl e"
  shows "e = Http (BadRequest (py ''Both 'zip' and 'measure_name' are required''))
       \<or> e = Http (BadRequest (py ''zip must be a 5-digit string''))
       \<or> e = Http (BadRequest (py ''measure_name must be a string''))
       \<or> e = Http (BadRequest (py ''measure_name must be one of the documented measures''))"
  using assms
  by (auto simp: validate_payload_def Let_def split: if_splits json.splits)

lemma validate_payload_raises_BadRequest:
  assumes "validate_payload d = Inl e"
  shows "\<exists>msg. e = Http (BadRequest msg) \<and> msg \<noteq> []"
  using validate_payload_raises[OF assms]
  by (elim disjE) (simp_all add: py_Nil_iff)

lemma ALLOWED_MEASURES_card: "card ALLOWED_MEASURES = 12"
  by (simp add: ALLOWED_MEASURES_def py_def)

lemma no_teapot:
  "map_of d (py ''coffee'') \<noteq> Some (JStr (py ''teapot'')) \<Longrightarrow>
     dict_get d (py ''coffee'') \<noteq> JStr (py ''teapot'')"
  by (auto simp: dict_get_def split: option.splits)

subsection \<open>The query\<close>

lemma join_on_True_iff:
  "join_on z r zc = Some True \<longleftrightarrow>
     zc_zip zc = Some z \<and>
     ((chr_fipscode r \<noteq> None \<and> chr_fipscode r = zc_county_code zc) \<or>
      (chr_county r \<noteq> None \<and> chr_county r = zc_county zc \<and>
       chr_state r \<noteq> None \<and> chr_state r = zc_state_abbreviation zc))"
  by (cases "zc_zip zc"; cases "chr_fipscode r"; cases "zc_county_code zc";
      cases "chr_county r"; cases "zc_county zc"; cases "chr_state r";
      cases "zc_state_abbreviation zc")
     (auto simp: join_on_def sql_and_def sql_or_def sql_eq_def sql_is_not_null_def)

lemma where_measure_True_iff:
  "where_measure m r = Some True \<longleftrightarrow> chr_measure_name r = Some m"
  by (cases "chr_measure_name r") (auto simp: where_measure_def sql_eq_def)

lemma set_query:
  "set (query db z m) =
     {r \<in> set (county_health_rankings db).
        where_measure m r = Some True \<and>
        (\<exists>zc \<in> set (zip_county db). join_on z r zc = Some True)}"
  by (auto simp: query_def)

lemma distinct_query: "distinct (query db z m)"
  by (simp add: query_def)

lemma sorted_query:
  "sorted (map (\<lambda>r. (chr_data_release_year r, chr_year_span r)) (query db z m))"
  by (simp add: query_def)

lemma count_list_distinct: "distinct xs \<Longrightarrow> x \<in> set xs \<Longrightarrow> count_list xs x = 1"
  by (induction xs) auto

lemma lookup_Tables:
  "contents st = Tables db \<Longrightarrow> lookup_county_data st z m = Inr (query db z m)"
  by (simp add: lookup_county_data_def get_connection_def)

lemma lookup_Absent:
  "contents st = Absent \<Longrightarrow>
     lookup_county_data st z m
       = Inl (Http (NotFound (py ''Database not found at '' @ DB_PATH st)))"
  by (simp add: lookup_county_data_def get_connection_def)


subsection \<open>What the route answers, case by case\<close>

lemma county_data_JNull:
  "county_data st JNull
     = \<lparr>status_code = 400, body = error_body (py ''Request body must be JSON'')\<rparr>"
  by (simp add: view_defs py_Nil_iff)

lemma county_data_teapot:
  "dict_get d (py ''coffee'') = JStr (py ''teapot'') \<Longrightarrow>
     county_data st (JObj d)
       = \<lparr>status_code = 418, body = error_body (py ''Request rejected: I'm a teapot.'')\<rparr>"
  by (simp add: view_defs)

lemma county_data_invalid:
  "dict_get d (py ''coffee'') \<noteq> JStr (py ''teapot'') \<Longrightarrow>
   validate_payload d = Inl (Http (BadRequest msg)) \<Longrightarrow> msg \<noteq> [] \<Longrightarrow>
     county_data st (JObj d) = \<lparr>status_code = 400, body = error_body msg\<rparr>"
  by (simp add: view_defs)

lemma county_data_valid:
  "dict_get d (py ''coffee'') \<noteq> JStr (py ''teapot'') \<Longrightarrow>
   validate_payload d = Inr (z, m) \<Longrightarrow>
     county_data st (JObj d) =
       (case lookup_county_data st z m of
          Inl e \<Rightarrow> handle_exception e
        | Inr records \<Rightarrow>
            if records = [] then
              \<lparr>status_code = 404, body = error_body (py ''No matching records found'')\<rparr>
            else \<lparr>status_code = 200, body = jsonify_records records\<rparr>)"
  by (simp add: view_defs py_Nil_iff split: sum.splits)

lemma county_data_no_dict:
  "payload \<noteq> JNull \<Longrightarrow> \<forall>d. payload \<noteq> JObj d \<Longrightarrow>
     county_data st payload
       = \<lparr>status_code = 500, body = error_body (no_attribute_get payload)\<rparr>"
  by (cases payload) (simp_all add: view_defs no_attribute_get_def)


lemma county_data_Absent:
  assumes "contents st = Absent"
    and "dict_get d (py ''coffee'') \<noteq> JStr (py ''teapot'')"
    and "validate_payload d = Inr (z, m)"
  shows "county_data st (JObj d)
      = \<lparr>status_code = 404, body = error_body (py ''Database not found at '' @ DB_PATH st)\<rparr>"
proof -
  have "py ''Database not found at '' \<noteq> []"
    by (simp add: py_Nil_iff)
  then show ?thesis
    by (simp add: county_data_valid[OF assms(2,3)] lookup_Absent[OF assms(1)]
        handle_http_exception_def)
qed



lemma db_not_found_neq: "py ''Database not found at '' @ p \<noteq> py ''No matching records found''"
  by (simp add: py_def)

lemma missing_store_other:
  assumes "contents st = Absent"
  shows "county_data st payload
      \<noteq> \<lparr>status_code = 404, body = error_body (py ''No matching records found'')\<rparr>
      \<and> status_code (county_data st payload) \<noteq> 200"
proof (cases payload)
  case JNull
  then show ?thesis by (simp add: county_data_JNull)
next
  case (JObj d)
  show ?thesis
  proof (cases "dict_get d (py ''coffee'') = JStr (py ''teapot'')")
    case True
    then show ?thesis using JObj by (simp add: county_data_teapot)
  next
    case False
    show ?thesis
    proof (cases "validate_payload d")
      case (Inl e)
      then obtain msg where "e = Http (BadRequest msg)" "msg \<noteq> []"
        using validate_payload_raises_BadRequest by blast
      then show ?thesis using JObj False Inl by (simp add: county_data_invalid)
    next
      case (Inr v)
      then have "validate_payload d = Inr (fst v, snd v)" by simp
      from county_data_Absent[OF assms False this] show ?thesis
        using JObj db_not_found_neq by (simp add: error_body_def)
    qed
  qed
qed (simp_all add: county_data_no_dict)

subsection \<open>The sample store, evaluated\<close>

lemmas query_eval = query_def join_on_def where_measure_def sql_eq_def sql_and_def sql_or_def
  sql_is_not_null_def sample_db_def sample_row_def py_def

lemma sample_contents: "contents sample_store = Tables sample_db"
  by (simp add: sample_store_def)

lemma sample_query:
  "query sample_db (py ''02138'') (py ''Adult obesity'')
     = [sample_row (py ''Middlesex County'') (py ''25017'') (py ''Adult obesity'')
          (py ''2010'') (py ''2006''),
        sample_row (py ''Middlesex County'') (py ''25017'') (py ''Adult obesity'')
          (py ''2012'') (py ''2008'')]"
  by (simp add: query_eval)

lemma sample_lookup:
  "lookup_county_data sample_store (py ''02138'') (py ''Adult obesity'')
     = Inr [sample_row (py ''Middlesex County'') (py ''25017'') (py ''Adult obesity'')
              (py ''2010'') (py ''2006''),
            sample_row (py ''Middlesex County'') (py ''25017'') (py ''Adult obesity'')
              (py ''2012'') (py ''2008'')]"
  by (simp add: lookup_Tables[OF sample_contents] sample_query)

lemma sample_lookup_empty:
  "lookup_county_data sample_store (py ''00000'') (py ''Adult obesity'') = Inr []"
  by (simp add: lookup_Tables[OF sample_contents] query_eval)

lemma sample_payload_valid:
  "validate_payload [(py ''zip'', JStr z), (py ''measure_name'', JStr (py ''Adult obesity''))]
     = (if ZIP_PATTERN_match z then Inr (z, py ''Adult obesity'')
        else Inl (Http (BadRequest (py ''zip must be a 5-digit string''))))"
  by (simp add: validate_payload_def dict_get_def ALLOWED_MEASURES_def py_def)

lemma sample_payload_no_coffee:
  "map_of [(py ''zip'', v), (py ''measure_name'', w)] (py ''coffee'')
     \<noteq> Some (JStr (py ''teapot''))"
  by (simp add: py_def)

lemma zip_02138: "ZIP_PATTERN_match (py ''02138'')"
  by (simp add: zip_eval)

lemma zip_00000: "ZIP_PATTERN_match (py ''00000'')"
  by (simp add: zip_eval)

section \<open>The claims\<close>

subsection \<open>The lookup query\<close>

text \<open>
  Claim C1. On a store that can be read, \<open>lookup_county_data\<close> returns rows, and the rows
  returned are exactly the health records whose measure name is the requested one and
  for which some row of the zip-to-county mapping has the requested zip and matches the
  record, either by code (the record's FIPS county code \<open>fipscode\<close> is not \<open>NULL\<close> and
  equals the mapping's county code) or by name (the record's county and state equal the
  mapping's county and state abbreviation, none of them \<open>NULL\<close>). The rows come in
  ascending order of the pair (data release year, year span).
\<close>

theorem lookup_returns_matching_rows_in_order:
  assumes "contents st = Tables db"
  shows "\<exists>rows. lookup_county_data st z m = Inr rows \<and>
           set rows =
             {r \<in> set (county_health_rankings db).
                chr_measure_name r = Some m \<and>
                (\<exists>zc \<in> set (zip_county db).
                   zc_zip zc = Some z \<and>
                   ((chr_fipscode r \<noteq> None \<and> chr_fipscode r = zc_county_code zc) \<or>
                    (chr_county r \<noteq> None \<and> chr_county r = zc_county zc \<and>
                     chr_state r \<noteq> None \<and> chr_state r = zc_state_abbreviation zc)))} \<and>
           sorted (map (\<lambda>r. (chr_data_release_year r, chr_year_span r)) rows)"
  using assms
  by (simp add: lookup_Tables set_query sorted_query join_on_True_iff where_measure_True_iff)

theorem lookup_returns_matching_rows_in_order_witness:
  "contents sample_store = Tables sample_db \<and>
   lookup_county_data sample_store (py ''02138'') (py ''Adult obesity'')
     = Inr [sample_row (py ''Middlesex County'') (py ''25017'') (py ''Adult obesity'')
              (py ''2010'') (py ''2006''),
            sample_row (py ''Middlesex County'') (py ''25017'') (py ''Adult obesity'')
              (py ''2012'') (py ''2008'')] \<and>
   sorted (map (\<lambda>r. (chr_data_release_year r, chr_year_span r))
     [sample_row (py ''Middlesex County'') (py ''25017'') (py ''Adult obesity'')
        (py ''2010'') (py ''2006''),
      sample_row (py ''Middlesex County'') (py ''25017'') (py ''Adult obesity'')
        (py ''2012'') (py ''2008'')])"
proof -
  from lookup_returns_matching_rows_in_order
         [OF sample_contents, of "py ''02138''" "py ''Adult obesity''"]
  obtain rows where
    "lookup_county_data sample_store (py ''02138'') (py ''Adult obesity'') = Inr rows"
    "sorted (map (\<lambda>r. (chr_data_release_year r, chr_year_span r)) rows)"
    by blast
  then show ?thesis
    using sample_contents by (simp add: sample_lookup)
qed

subsection \<open>The zip pattern\<close>

text \<open>
  Claim C2. Every string of five ASCII digits passes the zip check
  (\<open>five_ascii_digits_match\<close>), but they are not the only strings that do: by
  \<open>ZIP_PATTERN_match_iff\<close> the pattern also matches five decimal digits followed by one
  newline, and decimal digits outside ASCII. Here the payloads
  \<open>{"zip": "12345\n", "measure_name": "Adult obesity"}\<close> and the one whose zip is the
  five Arabic-Indic digits one to five are both validated, the zip returned as it came.
\<close>

theorem zip_check_accepts_more:
  "validate_payload
     [(py ''zip'', JStr (py ''12345'' @ [10])),
      (py ''measure_name'', JStr (py ''Adult obesity''))]
     = Inr (py ''12345'' @ [10], py ''Adult obesity'')
   \<and> validate_payload
     [(py ''zip'', JStr [1633, 1634, 1635, 1636, 1637]),
      (py ''measure_name'', JStr (py ''Adult obesity''))]
     = Inr ([1633, 1634, 1635, 1636, 1637], py ''Adult obesity'')"
  by (simp add: sample_payload_valid) (simp add: zip_eval)

subsection \<open>Validation of the measure name\<close>

text \<open>
  Claim C3. When \<open>measure_name\<close> is a string, validation can only succeed if the string
  is a member of \<open>ALLOWED_MEASURES\<close>, a set of 12 strings (\<open>ALLOWED_MEASURES_card\<close>); and once the zip has passed its check, validation
  succeeds with the two strings unchanged exactly when the string is a member, and fails
  with the unknown-measure error (400) for every other string. Membership is equality of
  strings: the case variant \<open>adult obesity\<close> of the witness is rejected.
\<close>

theorem measure_name_exact_membership:
  assumes "map_of d (py ''measure_name'') = Some (JStr m)"
  shows "((\<exists>v. validate_payload d = Inr v) \<longrightarrow> m \<in> ALLOWED_MEASURES) \<and>
         (map_of d (py ''zip'') = Some (JStr z) \<and> ZIP_PATTERN_match z \<longrightarrow>
            (if m \<in> ALLOWED_MEASURES then validate_payload d = Inr (z, m)
             else validate_payload d = Inl (Http (BadRequest
                    (py ''measure_name must be one of the documented measures'')))))"
  using assms
  by (auto simp: validate_payload_def dict_get_def Let_def
           split: option.splits json.splits if_splits)

theorem measure_name_exact_membership_witness:
  "validate_payload
     [(py ''zip'', JStr (py ''02138'')), (py ''measure_name'', JStr (py ''Adult obesity''))]
     = Inr (py ''02138'', py ''Adult obesity'')
   \<and> validate_payload
     [(py ''zip'', JStr (py ''02138'')), (py ''measure_name'', JStr (py ''adult obesity''))]
     = Inl (Http (BadRequest (py ''measure_name must be one of the documented measures'')))"
  using measure_name_exact_membership
          [of "[(py ''zip'', JStr (py ''02138'')),
                (py ''measure_name'', JStr (py ''Adult obesity''))]"
              "py ''Adult obesity''" "py ''02138''"]
        measure_name_exact_membership
          [of "[(py ''zip'', JStr (py ''02138'')),
                (py ''measure_name'', JStr (py ''adult obesity''))]"
              "py ''adult obesity''" "py ''02138''"]
  by (simp add: ALLOWED_MEASURES_def zip_eval)

subsection \<open>Empty results and the missing store\<close>

text \<open>
  Claim C4, as stated, fails on the message: for a valid payload and a store whose query
  returns no row the answer is 404, but the body is
  \<open>{"error": "No matching records found"}\<close>, not \<open>{"error": "no matching records"}\<close>.
\<close>

theorem empty_result_message_counterexample:
  "county_data
     \<lparr>DB_PATH = py ''/var/task/data.db'',
      contents = Tables \<lparr>county_health_rankings = [], zip_county = []\<rparr>\<rparr>
     (JObj [(py ''zip'', JStr (py ''00000'')), (py ''measure_name'', JStr (py ''Adult obesity''))])
   = \<lparr>status_code = 404,
      body = JObj [(py ''error'', JStr (py ''No matching records found''))]\<rparr>
   \<and> py ''No matching records found'' \<noteq> py ''no matching records''"
proof -
  let ?d = "[(py ''zip'', JStr (py ''00000'')), (py ''measure_name'', JStr (py ''Adult obesity''))]"
  have v: "validate_payload ?d = Inr (py ''00000'', py ''Adult obesity'')"
    by (simp add: sample_payload_valid zip_00000)
  have c: "dict_get ?d (py ''coffee'') \<noteq> JStr (py ''teapot'')"
    by (rule no_teapot) (rule sample_payload_no_coffee)
  have n: "py ''No matching records found'' \<noteq> py ''no matching records''"
    by (simp add: py_def)
  show ?thesis
    using n by (simp add: county_data_valid[OF c v] lookup_Tables query_def error_body_def)
qed

text \<open>
  Claim C4, amended. For every payload that passes validation (and does not carry the
  teapot pair) and whose lookup returns rows, the response is 404 with the body
  \<open>{"error": "No matching records found"}\<close> when there is no row, and 200 with the JSON
  array of the rows, in the order of the lookup, when there is at least one.
\<close>

theorem empty_result_is_404:
  assumes "validate_payload d = Inr (z, m)"
    and "map_of d (py ''coffee'') \<noteq> Some (JStr (py ''teapot''))"
    and "lookup_county_data st z m = Inr rows"
  shows "county_data st (JObj d) =
           (if rows = [] then
              \<lparr>status_code = 404,
               body = JObj [(py ''error'', JStr (py ''No matching records found''))]\<rparr>
            else \<lparr>status_code = 200, body = JArr (map dict_row rows)\<rparr>)"
  using assms
  by (simp add: county_data_valid no_teapot jsonify_records_def error_body_def)

theorem empty_result_is_404_witness:
  "county_data sample_store
     (JObj [(py ''zip'', JStr (py ''00000'')), (py ''measure_name'', JStr (py ''Adult obesity''))])
   = \<lparr>status_code = 404,
      body = JObj [(py ''error'', JStr (py ''No matching records found''))]\<rparr>
   \<and> county_data sample_store
     (JObj [(py ''zip'', JStr (py ''02138'')), (py ''measure_name'', JStr (py ''Adult obesity''))])
   = \<lparr>status_code = 200,
      body = JArr (map dict_row
        [sample_row (py ''Middlesex County'') (py ''25017'') (py ''Adult obesity'')
           (py ''2010'') (py ''2006''),
         sample_row (py ''Middlesex County'') (py ''25017'') (py ''Adult obesity'')
           (py ''2012'') (py ''2008'')])\<rparr>"
proof -
  have v0: "validate_payload
      [(py ''zip'', JStr (py ''00000'')), (py ''measure_name'', JStr (py ''Adult obesity''))]
      = Inr (py ''00000'', py ''Adult obesity'')"
    by (simp add: sample_payload_valid zip_00000)
  have v1: "validate_payload
      [(py ''zip'', JStr (py ''02138'')), (py ''measure_name'', JStr (py ''Adult obesity''))]
      = Inr (py ''02138'', py ''Adult obesity'')"
    by (simp add: sample_payload_valid zip_02138)
  show ?thesis
    using empty_result_is_404[OF v0 sample_payload_no_coffee sample_lookup_empty]
      empty_result_is_404[OF v1 sample_payload_no_coffee sample_lookup]
    by simp
qed

text \<open>
  Claim C5. When nothing is at the store path, every lookup raises the not-found error
  whose text is \<open>Database not found at\<close> followed by the path; no query is run, for the
  result does not depend on any table. A validated payload is answered 404 with that
  text, and no payload at all is answered with the no-match response or with 200.
\<close>

theorem missing_store_is_not_no_match:
  assumes "contents st = Absent"
  shows "lookup_county_data st z m
           = Inl (Http (NotFound (py ''Database not found at '' @ DB_PATH st)))
         \<and> (validate_payload d = Inr (z, m)
              \<and> map_of d (py ''coffee'') \<noteq> Some (JStr (py ''teapot'')) \<longrightarrow>
            county_data st (JObj d)
              = \<lparr>status_code = 404,
                 body = JObj [(py ''error'',
                          JStr (py ''Database not found at '' @ DB_PATH st))]\<rparr>)
         \<and> county_data st payload
              \<noteq> \<lparr>status_code = 404,
                  body = JObj [(py ''error'', JStr (py ''No matching records found''))]\<rparr>
         \<and> status_code (county_data st payload) \<noteq> 200"
  using lookup_Absent[OF assms] county_data_Absent[OF assms] missing_store_other[OF assms]
  by (simp add: no_teapot error_body_def)

theorem missing_store_is_not_no_match_witness:
  "contents \<lparr>DB_PATH = py ''/var/task/data.db'', contents = Absent\<rparr> = Absent
   \<and> lookup_county_data \<lparr>DB_PATH = py ''/var/task/data.db'', contents = Absent\<rparr>
        (py ''02138'') (py ''Adult obesity'')
      = Inl (Http (NotFound (py ''Database not found at /var/task/data.db'')))
   \<and> county_data \<lparr>DB_PATH = py ''/var/task/data.db'', contents = Absent\<rparr>
        (JObj [(py ''zip'', JStr (py ''02138'')),
               (py ''measure_name'', JStr (py ''Adult obesity''))])
      = \<lparr>status_code = 404,
         body = JObj [(py ''error'', JStr (py ''Database not found at /var/task/data.db''))]\<rparr>"
proof -
  let ?st = "\<lparr>DB_PATH = py ''/var/task/data.db'', contents = Absent\<rparr>"
  let ?d = "[(py ''zip'', JStr (py ''02138'')), (py ''measure_name'', JStr (py ''Adult obesity''))]"
  have h: "contents ?st = Absent"
    by simp
  have v: "validate_payload ?d = Inr (py ''02138'', py ''Adult obesity'')"
    by (simp add: sample_payload_valid zip_02138)
  have c: "map_of ?d (py ''coffee'') \<noteq> Some (JStr (py ''teapot''))"
    by (rule sample_payload_no_coffee)
  have p: "py ''Database not found at '' @ py ''/var/task/data.db''
             = py ''Database not found at /var/task/data.db''"
    by (simp add: py_def)
  from missing_store_is_not_no_match
         [OF h, of "py ''02138''" "py ''Adult obesity''" ?d JNull]
  have "lookup_county_data ?st (py ''02138'') (py ''Adult obesity'')
          = Inl (Http (NotFound (py ''Database not found at '' @ DB_PATH ?st)))"
    and "county_data ?st (JObj ?d)
          = \<lparr>status_code = 404,
             body = JObj [(py ''error'',
                      JStr (py ''Database not found at '' @ DB_PATH ?st))]\<rparr>"
    using v c by blast+
  then show ?thesis
    using p by simp
qed

subsection \<open>Duplicate rows\<close>

text \<open>
  Claim C6. The rows a lookup returns are pairwise different, and a record that a
  mapping row of the zip matches both by code and by name is in the result exactly once.
\<close>

theorem lookup_rows_distinct:
  assumes "contents st = Tables db"
  shows "\<exists>rows. lookup_county_data st z m = Inr rows \<and> distinct rows \<and>
           (\<forall>r \<in> set (county_health_rankings db). \<forall>zc \<in> set (zip_county db).
              chr_measure_name r = Some m \<and> zc_zip zc = Some z \<and>
              chr_fipscode r \<noteq> None \<and> chr_fipscode r = zc_county_code zc \<and>
              chr_county r \<noteq> None \<and> chr_county r = zc_county zc \<and>
              chr_state r \<noteq> None \<and> chr_state r = zc_state_abbreviation zc
              \<longrightarrow> count_list rows r = 1)"
proof -
  have "count_list (query db z m) r = 1" if "r \<in> set (query db z m)" for r
    using that distinct_query[of db z m] by (simp add: count_list_distinct)
  moreover have "r \<in> set (query db z m)"
    if "r \<in> set (county_health_rankings db)" "zc \<in> set (zip_county db)"
       "chr_measure_name r = Some m" "zc_zip zc = Some z"
       "chr_fipscode r \<noteq> None" "chr_fipscode r = zc_county_code zc" for r zc
    using that unfolding set_query join_on_True_iff where_measure_True_iff by blast
  ultimately show ?thesis
    using assms by (auto simp: lookup_Tables distinct_query)
qed

theorem lookup_rows_distinct_witness:
  "contents sample_store = Tables sample_db \<and>
   lookup_county_data sample_store (py ''02138'') (py ''Adult obesity'')
     = Inr [sample_row (py ''Middlesex County'') (py ''25017'') (py ''Adult obesity'')
              (py ''2010'') (py ''2006''),
            sample_row (py ''Middlesex County'') (py ''25017'') (py ''Adult obesity'')
              (py ''2012'') (py ''2008'')] \<and>
   count_list
     [sample_row (py ''Middlesex County'') (py ''25017'') (py ''Adult obesity'')
        (py ''2010'') (py ''2006''),
      sample_row (py ''Middlesex County'') (py ''25017'') (py ''Adult obesity'')
        (py ''2012'') (py ''2008'')]
     (sample_row (py ''Middlesex County'') (py ''25017'') (py ''Adult obesity'')
        (py ''2012'') (py ''2008'')) = 1"
proof -
  let ?r = "sample_row (py ''Middlesex County'') (py ''25017'') (py ''Adult obesity'')
              (py ''2012'') (py ''2008'')"
  let ?zc = "\<lparr>zc_zip = Some (py ''02138''), zc_county = Some (py ''Middlesex County''),
              zc_state_abbreviation = Some (py ''MA''), zc_county_code = Some (py ''25017'')\<rparr>"
  have r: "?r \<in> set (county_health_rankings sample_db)"
    by (simp add: sample_db_def)
  have zc: "?zc \<in> set (zip_county sample_db)"
    by (simp add: sample_db_def)
  have both: "chr_measure_name ?r = Some (py ''Adult obesity'') \<and>
      zc_zip ?zc = Some (py ''02138'') \<and>
      chr_fipscode ?r \<noteq> None \<and> chr_fipscode ?r = zc_county_code ?zc \<and>
      chr_county ?r \<noteq> None \<and> chr_county ?r = zc_county ?zc \<and>
      chr_state ?r \<noteq> None \<and> chr_state ?r = zc_state_abbreviation ?zc"
    by (simp add: sample_row_def)
  from lookup_rows_distinct[OF sample_contents, of "py ''02138''" "py ''Adult obesity''"]
  obtain rows where
    l: "lookup_county_data sample_store (py ''02138'') (py ''Adult obesity'') = Inr rows"
    and c: "\<forall>r \<in> set (county_health_rankings sample_db). \<forall>zc \<in> set (zip_county sample_db).
              chr_measure_name r = Some (py ''Adult obesity'') \<and> zc_zip zc = Some (py ''02138'') \<and>
              chr_fipscode r \<noteq> None \<and> chr_fipscode r = zc_county_code zc \<and>
              chr_county r \<noteq> None \<and> chr_county r = zc_county zc \<and>
              chr_state r \<noteq> None \<and> chr_state r = zc_state_abbreviation zc
              \<longrightarrow> count_list rows r = 1"
    by blast
  from c r zc both have "count_list rows ?r = 1"
    by blast
  then show ?thesis
    using sample_contents l by (simp add: sample_lookup)
qed

subsection \<open>What error messages carry\<close>




subsection \<open>A measure name that is no string\<close>




subsection \<open>The teapot\<close>

text \<open>
  Claim C9. Every JSON-object payload in which the key \<open>coffee\<close> is bound to the string
  \<open>teapot\<close> is answered 418 with the fixed teapot message, whatever else the payload
  holds and whatever the store is: neither validation nor the lookup has a say.
\<close>

theorem teapot_short_circuits:
  assumes "map_of d (py ''coffee'') = Some (JStr (py ''teapot''))"
  shows "county_data st (JObj d)
           = \<lparr>status_code = 418,
              body = JObj [(py ''error'', JStr (py ''Request rejected: I'm a teapot.''))]\<rparr>"
  using assms by (simp add: county_data_teapot dict_get_def error_body_def)

theorem teapot_short_circuits_witness:
  "county_data \<lparr>DB_PATH = py ''/var/task/data.db'', contents = Absent\<rparr>
     (JObj [(py ''coffee'', JStr (py ''teapot''))])
     = \<lparr>status_code = 418,
        body = JObj [(py ''error'', JStr (py ''Request rejected: I'm a teapot.''))]\<rparr>
   \<and> county_data \<lparr>DB_PATH = py ''/var/task/data.db'', contents = Absent\<rparr>
     (JObj [(py ''zip'', JInt 7), (py ''coffee'', JStr (py ''teapot''))])
     = \<lparr>status_code = 418,
        body = JObj [(py ''error'', JStr (py ''Request rejected: I'm a teapot.''))]\<rparr>"
  using teapot_short_circuits
          [of "[(py ''coffee'', JStr (py ''teapot''))]"
              "\<lparr>DB_PATH = py ''/var/task/data.db'', contents = Absent\<rparr>"]
        teapot_short_circuits
          [of "[(py ''zip'', JInt 7), (py ''coffee'', JStr (py ''teapot''))]"
              "\<lparr>DB_PATH = py ''/var/task/data.db'', contents = Absent\<rparr>"]
  by (simp add: py_def)

subsection \<open>Null fields\<close>

text \<open>
  Claim C10. A payload in which \<open>zip\<close> or \<open>measure_name\<close> is bound to null is rejected
  with the same missing-field error (400, both fields required) as one in which the key
  is absent, whatever the other field holds; the checks of the zip and of the measure
  name are not reached.
\<close>

theorem null_is_missing_field:
  assumes "map_of d (py ''zip'') = None \<or> map_of d (py ''zip'') = Some JNull
           \<or> map_of d (py ''measure_name'') = None
           \<or> map_of d (py ''measure_name'') = Some JNull"
  shows "validate_payload d
           = Inl (Http (BadRequest (py ''Both 'zip' and 'measure_name' are required'')))
         \<and> (map_of d (py ''coffee'') \<noteq> Some (JStr (py ''teapot'')) \<longrightarrow>
              county_data st (JObj d)
                = \<lparr>status_code = 400,
                   body = JObj [(py ''error'',
                            JStr (py ''Both 'zip' and 'measure_name' are required''))]\<rparr>)"
proof -
  have v: "validate_payload d
             = Inl (Http (BadRequest (py ''Both 'zip' and 'measure_name' are required'')))"
    using assms by (auto simp: validate_payload_def dict_get_def Let_def)
  then show ?thesis
    by (simp add: county_data_invalid no_teapot error_body_def py_Nil_iff)
qed

theorem null_is_missing_field_witness:
  "validate_payload [(py ''zip'', JNull), (py ''measure_name'', JStr (py ''Adult obesity''))]
     = Inl (Http (BadRequest (py ''Both 'zip' and 'measure_name' are required'')))
   \<and> validate_payload [(py ''measure_name'', JStr (py ''Adult obesity''))]
     = Inl (Http (BadRequest (py ''Both 'zip' and 'measure_name' are required'')))
   \<and> validate_payload [(py ''zip'', JStr (py ''0213'')), (py ''measure_name'', JNull)]
     = Inl (Http (BadRequest (py ''Both 'zip' and 'measure_name' are required'')))"
  using null_is_missing_field
          [of "[(py ''zip'', JNull), (py ''measure_name'', JStr (py ''Adult obesity''))]"]
        null_is_missing_field
          [of "[(py ''measure_name'', JStr (py ''Adult obesity''))]"]
        null_is_missing_field
          [of "[(py ''zip'', JStr (py ''0213'')), (py ''measure_name'', JNull)]"]
  by (simp add: py_def)

end
